theory Spec2Isabelle
  imports Complex_Main
begin

section \<open>Strings\<close>

text \<open>
  A TypeScript string is modelled as a \<^typ>\<open>string\<close>, a list of characters. The
  character classes of the regular expressions and of \<^verbatim>\<open>trim\<close> and
  \<^verbatim>\<open>toLowerCase\<close> are the ASCII ones: a character outside ASCII is neither a
  space nor a word character and has no case.
\<close>

definition isUpper :: "char \<Rightarrow> bool" where
  "isUpper c = (65 \<le> (of_char c :: nat) \<and> (of_char c :: nat) \<le> 90)"

definition isLower :: "char \<Rightarrow> bool" where
  "isLower c = (97 \<le> (of_char c :: nat) \<and> (of_char c :: nat) \<le> 122)"

definition isDigit :: "char \<Rightarrow> bool" where
  "isDigit c = (48 \<le> (of_char c :: nat) \<and> (of_char c :: nat) \<le> 57)"

text \<open>The class \<^verbatim>\<open>\w\<close>: letters, digits and the underscore.\<close>

definition isWord :: "char \<Rightarrow> bool" where
  "isWord c = (isUpper c \<or> isLower c \<or> isDigit c \<or> c = CHR ''_'')"

text \<open>The class \<^verbatim>\<open>\s\<close>, also what \<^verbatim>\<open>trim\<close> removes: tab, line feed,
  vertical tab, form feed, carriage return and space.\<close>

definition isSpace :: "char \<Rightarrow> bool" where
  "isSpace c = ((9 \<le> (of_char c :: nat) \<and> (of_char c :: nat) \<le> 13) \<or> c = CHR '' '')"

definition toLowerChar :: "char \<Rightarrow> char" where
  "toLowerChar c = (if isUpper c then char_of ((of_char c :: nat) + 32) else c)"

definition toLowerCase :: "string \<Rightarrow> string" where
  "toLowerCase s = map toLowerChar s"

definition startsWith :: "string \<Rightarrow> string \<Rightarrow> bool" where
  "startsWith s p = (take (length p) s = p)"

text \<open>\<^verbatim>\<open>s.includes(t)\<close>: \<open>t\<close> occurs in \<open>s\<close> as a contiguous substring.\<close>

fun str_includes :: "string \<Rightarrow> string \<Rightarrow> bool" where
  "str_includes [] t = (t = [])"
| "str_includes (c # cs) t = (startsWith (c # cs) t \<or> str_includes cs t)"

definition trim :: "string \<Rightarrow> string" where
  "trim s = rev (dropWhile isSpace (rev (dropWhile isSpace s)))"

text \<open>\<^verbatim>\<open>[...new Set(xs)]\<close>: the first occurrence of each element, in order.\<close>

definition dedup :: "'a list \<Rightarrow> 'a list" where
  "dedup xs = rev (remdups (rev xs))"

text \<open>The maximal runs of word characters of a string, left to right.\<close>

fun wordRuns :: "string \<Rightarrow> string \<Rightarrow> string list" where
  "wordRuns cur [] = (if cur = [] then [] else [cur])"
| "wordRuns cur (c # cs) =
     (if isWord c then wordRuns (cur @ [c]) cs
      else (if cur = [] then [] else [cur]) @ wordRuns [] cs)"

section \<open>Schema types (types/schema.ts)\<close>

record ColumnSchema =
  cname :: string
  ctype :: string
  cdescription :: "string option"

record TableSchema =
  tname :: string
  tdescription :: "string option"
  columns :: "ColumnSchema list"
  domain :: "string list option"

record DatabaseSchema =
  database :: string
  tables :: "TableSchema list"

record RefinedSchema =
  rtables :: "TableSchema list"
  rcolumns :: "ColumnSchema list"
  relevance :: real

record Example =
  nlq :: string
  kql :: string
  edatabase :: string
  tags :: "string list option"

text \<open>The entries \<^verbatim>\<open>{item, score}\<close> that the matching functions build.\<close>

record 'a scored =
  item :: 'a
  score :: nat

section \<open>Schema Refiner (engine/schema-refiner.ts)\<close>

definition domainTerms :: "string list" where
  "domainTerms =
    [''security'', ''event'', ''log'', ''authentication'', ''authorization'',
     ''user'', ''account'', ''login'', ''failed'', ''success'', ''error'',
     ''process'', ''file'', ''network'', ''connection'', ''threat'', ''malware'',
     ''device'', ''computer'', ''server'', ''client'', ''ip'', ''port'',
     ''time'', ''date'', ''hour'', ''day'', ''week'', ''month'', ''last'', ''ago'']"

text \<open>
  \<^verbatim>\<open>nlq.match(/"([^"]+)"/g)\<close>: the matches, each with its two quotes, found left to
  right. At a quote, the match is the quote, the characters up to the next quote (at least
  one) and that quote; the search goes on behind the match. Where there is no match at a
  quote, the search goes on at the next character.
\<close>

function quotedMatches :: "string \<Rightarrow> string list" where
  "quotedMatches [] = []"
| "quotedMatches (c # cs) =
     (if c = CHR 0x22 then
        (let inner = takeWhile (\<lambda>x. x \<noteq> CHR 0x22) cs;
             rest = dropWhile (\<lambda>x. x \<noteq> CHR 0x22) cs
         in if inner \<noteq> [] \<and> rest \<noteq> []
            then ([CHR 0x22] @ inner @ [CHR 0x22]) # quotedMatches (tl rest)
            else quotedMatches cs)
      else quotedMatches cs)"
  by pat_completeness auto
termination
proof (relation "measure length")
  fix c :: char and cs inner rest :: string
  assume "rest = dropWhile (\<lambda>x. x \<noteq> CHR 0x22) cs"
  then have "length (tl rest) \<le> length cs"
    using length_dropWhile_le [of "\<lambda>x. x \<noteq> CHR 0x22" cs] by simp
  then show "(tl rest, c # cs) \<in> measure length" by simp
qed auto

text \<open>
  \<^verbatim>\<open>nlq.match(/\b[A-Z][a-z]+\b/g)\<close>: a match begins and ends at a word boundary and
  holds word characters only, so it is a maximal run of word characters; the runs that
  match are those made of one upper-case letter and then one or more lower-case letters.
\<close>

definition isCapitalized :: "string \<Rightarrow> bool" where
  "isCapitalized w =
     (case w of [] \<Rightarrow> False | c # cs \<Rightarrow> isUpper c \<and> cs \<noteq> [] \<and> list_all isLower cs)"

definition capitalizedWords :: "string \<Rightarrow> string list" where
  "capitalizedWords s = filter isCapitalized (wordRuns [] s)"

definition extractEntities :: "string \<Rightarrow> string list" where
  "extractEntities q =
     (let lowerQuery = toLowerCase q;
          e1 = filter (\<lambda>term. str_includes lowerQuery term) domainTerms;
          e2 = map (\<lambda>m. filter (\<lambda>x. x \<noteq> CHR 0x22) m) (quotedMatches q);
          e3 = map toLowerCase (filter (\<lambda>w. length w > 3) (capitalizedWords q))
      in dedup (e1 @ e2 @ e3))"

text \<open>\<^verbatim>\<open>if (table.description)\<close> is false for a missing and for an empty description.\<close>

definition tableScore :: "string list \<Rightarrow> TableSchema \<Rightarrow> nat" where
  "tableScore entities t =
     (let tableNameLower = toLowerCase (tname t);
          s1 = sum_list (map (\<lambda>e. if str_includes tableNameLower e \<or> str_includes e tableNameLower
                                    then 10 else 0) entities);
          s2 = (case tdescription t of
                  None \<Rightarrow> 0
                | Some d \<Rightarrow> if d = [] then 0
                    else sum_list (map (\<lambda>e. if str_includes (toLowerCase d) e then 5 else 0) entities));
          s3 = (case domain t of
                  None \<Rightarrow> 0
                | Some ds \<Rightarrow> sum_list (map (\<lambda>d. if toLowerCase d \<in> set entities then 3 else 0) ds));
          s4 = sum_list (map (\<lambda>c. sum_list (map (\<lambda>e. if str_includes (toLowerCase (cname c)) e
                                                      then 2 else 0) entities)) (columns t))
      in s1 + s2 + s3 + s4)"

definition matchTables :: "string list \<Rightarrow> TableSchema list \<Rightarrow> TableSchema scored list" where
  "matchTables entities ts = map (\<lambda>t. \<lparr>item = t, score = tableScore entities t\<rparr>) ts"

definition columnScore :: "string list \<Rightarrow> ColumnSchema \<Rightarrow> nat" where
  "columnScore entities c =
     (let colNameLower = toLowerCase (cname c);
          s1 = sum_list (map (\<lambda>e. if str_includes colNameLower e \<or> str_includes e colNameLower
                                    then 5 else 0) entities);
          s2 = (case cdescription c of
                  None \<Rightarrow> 0
                | Some d \<Rightarrow> if d = [] then 0
                    else sum_list (map (\<lambda>e. if str_includes (toLowerCase d) e then 3 else 0) entities))
      in s1 + s2)"

definition matchColumns :: "string list \<Rightarrow> TableSchema list \<Rightarrow> ColumnSchema scored list" where
  "matchColumns entities ts =
     concat (map (\<lambda>t. map (\<lambda>c. \<lparr>item = c, score = columnScore entities c\<rparr>) (columns t)) ts)"

text \<open>\<^verbatim>\<open>Array.prototype.sort\<close> is stable; with the comparator
  \<^verbatim>\<open>b.score - a.score\<close> it sorts by descending score.\<close>

definition rankByRelevance :: "'a scored list \<Rightarrow> 'a scored list" where
  "rankByRelevance matches = sort_key (\<lambda>m. - int (score m)) (filter (\<lambda>m. score m > 0) matches)"

definition selectTopK :: "'a scored list \<Rightarrow> nat \<Rightarrow> 'a scored list" where
  "selectTopK ranked k = take k ranked"

text \<open>\<^verbatim>\<open>ms[0]?.score || 0\<close>: the score of the first entry, 0 for an empty list.\<close>

definition topScore :: "'a scored list \<Rightarrow> nat" where
  "topScore ms = (case ms of [] \<Rightarrow> 0 | m # _ \<Rightarrow> score m)"

definition computeOverallRelevance ::
  "TableSchema scored list \<Rightarrow> ColumnSchema scored list \<Rightarrow> real" where
  "computeOverallRelevance tableMatches columnMatches =
     (real (topScore tableMatches) + real (topScore columnMatches)) / 2"

text \<open>The values of the local variables \<^verbatim>\<open>rankedTables\<close> and \<^verbatim>\<open>rankedColumns\<close> of
  \<^verbatim>\<open>refineSchema\<close>.\<close>

definition rankedTables :: "string \<Rightarrow> DatabaseSchema \<Rightarrow> TableSchema scored list" where
  "rankedTables q fullSchema =
     rankByRelevance (matchTables (extractEntities q) (tables fullSchema))"

definition rankedColumns :: "string \<Rightarrow> DatabaseSchema \<Rightarrow> ColumnSchema scored list" where
  "rankedColumns q fullSchema =
     rankByRelevance (matchColumns (extractEntities q) (tables fullSchema))"

definition refineSchema :: "string \<Rightarrow> DatabaseSchema \<Rightarrow> RefinedSchema" where
  "refineSchema q fullSchema =
     (let topTables = selectTopK (rankedTables q fullSchema) 5;
          topColumns = selectTopK (rankedColumns q fullSchema) 20
      in \<lparr>rtables = map item topTables,
          rcolumns = map item topColumns,
          relevance = computeOverallRelevance (rankedTables q fullSchema)
                        (rankedColumns q fullSchema)\<rparr>)"

section \<open>Few-shot Selector (engine/few-shot-selector.ts)\<close>

text \<open>\<^verbatim>\<open>s.split(/\s+/)\<close>: the pieces between the runs of spaces; a string that begins or
  ends with a space gives an empty first or last piece, the empty string gives one empty
  piece.\<close>

function splitSpaces :: "string \<Rightarrow> string list" where
  "splitSpaces s =
     (case dropWhile (\<lambda>c. \<not> isSpace c) s of
        [] \<Rightarrow> [s]
      | c # r \<Rightarrow> takeWhile (\<lambda>c. \<not> isSpace c) s # splitSpaces (dropWhile isSpace r))"
  by pat_completeness auto
termination
proof (relation "measure length")
  fix s :: string and c :: char and r :: string
  assume a: "dropWhile (\<lambda>c. \<not> isSpace c) s = c # r"
  have "length (dropWhile isSpace r) \<le> length r"
    by (rule length_dropWhile_le)
  moreover have "length (c # r) \<le> length s"
    using length_dropWhile_le [of "\<lambda>c. \<not> isSpace c" s] a by simp
  ultimately show "(dropWhile isSpace r, s) \<in> measure length" by simp
qed simp

text \<open>\<^verbatim>\<open>replace(/[^\w\s]/g, ' ')\<close> puts a space for each character that is neither a
  word character nor a space.\<close>

definition tokenize :: "string \<Rightarrow> string list" where
  "tokenize text =
     filter (\<lambda>w. length w > 2)
       (splitSpaces (map (\<lambda>c. if \<not> isWord c \<and> \<not> isSpace c then CHR '' '' else c)
                         (toLowerCase text)))"

text \<open>The numbers of the source are modelled as exact numbers: a score that is a sum of
  weights as a natural number, a quotient as a real number.\<close>

definition computeSimilarity :: "string \<Rightarrow> string \<Rightarrow> real" where
  "computeSimilarity nlq1 nlq2 =
     (let words1 = tokenize nlq1;
          words2 = tokenize nlq2;
          intersection = filter (\<lambda>w. w \<in> set words2) words1;
          union = dedup (words1 @ words2)
      in if length union = 0 then 0
         else
           (let jaccard = real (length intersection) / real (length union);
                exactMatch = (str_includes (toLowerCase nlq1) (toLowerCase nlq2) \<or>
                              str_includes (toLowerCase nlq2) (toLowerCase nlq1));
                exactMatchBoost = (if exactMatch then 3 / 10 else 0)
            in min 1 (jaccard + exactMatchBoost)))"

text \<open>The similarity as the specification words it: the Jaccard index of the two token
  sets, plus the bonus, clamped to 1.\<close>

definition computeSimilarity_spec :: "string \<Rightarrow> string \<Rightarrow> real" where
  "computeSimilarity_spec nlq1 nlq2 =
     (let A = set (tokenize nlq1);
          B = set (tokenize nlq2)
      in if A \<union> B = {} then 0
         else min 1 (real (card (A \<inter> B)) / real (card (A \<union> B)) +
                     (if str_includes (toLowerCase nlq1) (toLowerCase nlq2) \<or>
                         str_includes (toLowerCase nlq2) (toLowerCase nlq1)
                      then 3 / 10 else 0)))"


section \<open>Query Refiner (engine/query-refiner.ts)\<close>

text \<open>The field \<^verbatim>\<open>fixes\<close> is named \<open>fixes_applied\<close> here.\<close>

record RefinementResult =
  query :: string
  isValid :: bool
  errors :: "string list"
  fixes_applied :: "string list"
  attempts :: nat

text \<open>The schema argument \<^verbatim>\<open>{ tables: string[], columns: string[] }\<close>.\<close>

record QuerySchema =
  qtables :: "string list"
  qcolumns :: "string list"

definition maxAttempts :: nat where
  "maxAttempts = 3"

text \<open>\<^verbatim>\<open>(kql.match(/c/g) || []).length\<close> for a single character \<open>c\<close>.\<close>

definition countChar :: "char \<Rightarrow> string \<Rightarrow> nat" where
  "countChar c s = length (filter (\<lambda>x. x = c) s)"

text \<open>\<^verbatim>\<open>s.split('\n')\<close>, for a separator of one character: the empty string gives one
  empty piece.\<close>

fun splitChar :: "char \<Rightarrow> string \<Rightarrow> string list" where
  "splitChar sep [] = [[]]"
| "splitChar sep (c # cs) =
     (if c = sep then [] # splitChar sep cs
      else (case splitChar sep cs of [] \<Rightarrow> [[c]] | l # ls \<Rightarrow> (c # l) # ls))"

fun join :: "string \<Rightarrow> string list \<Rightarrow> string" where
  "join sep [] = []"
| "join sep [x] = x"
| "join sep (x # y # ys) = x @ sep @ join sep (y # ys)"

text \<open>The decimal digits of a number, as a template literal prints it.\<close>

fun decimal :: "nat \<Rightarrow> string" where
  "decimal n =
     (if n < 10 then [char_of (48 + n)]
      else decimal (n div 10) @ [char_of (48 + n mod 10)])"

text \<open>\<^verbatim>\<open>s.replace(/pat/g, rep)\<close> for a pattern without metacharacters: every occurrence,
  left to right, the search going on behind each replaced occurrence.\<close>

function replaceAll :: "string \<Rightarrow> string \<Rightarrow> string \<Rightarrow> string" where
  "replaceAll pat rep [] = []"
| "replaceAll pat rep (c # cs) =
     (if pat \<noteq> [] \<and> startsWith (c # cs) pat
      then rep @ replaceAll pat rep (drop (length pat) (c # cs))
      else c # replaceAll pat rep cs)"
  by pat_completeness auto
termination
  by (relation "measure (\<lambda>(pat, rep, s). length s)") auto

text \<open>The condition of both line scans: a trimmed line that is not empty and starts with
  none of \<^verbatim>\<open>|\<close>, \<^verbatim>\<open>//\<close> and \<^verbatim>\<open>.\<close>.\<close>

definition needsPipe :: "string \<Rightarrow> bool" where
  "needsPipe line =
     (line \<noteq> [] \<and> \<not> startsWith line ''|'' \<and> \<not> startsWith line ''//'' \<and> \<not> startsWith line ''.'')"

text \<open>The loop \<^verbatim>\<open>for (let i = 1; i < lines.length; i++)\<close> of \<^verbatim>\<open>validateSyntax\<close>,
  from index \<open>i\<close> on, over the lines from that index on.\<close>

fun pipeErrors :: "nat \<Rightarrow> string list \<Rightarrow> string list" where
  "pipeErrors i [] = []"
| "pipeErrors i (l # ls) =
     (if needsPipe (trim l)
      then (''Missing pipe operator at line '' @ decimal (i + 1)) # pipeErrors (i + 1) ls
      else pipeErrors (i + 1) ls)"

definition validateSyntax :: "string \<Rightarrow> string list" where
  "validateSyntax q =
     (let openParens = countChar CHR ''('' q;
          closeParens = countChar CHR '')'' q;
          e1 = (if openParens \<noteq> closeParens then [''Unbalanced parentheses''] else []);
          openBrackets = countChar CHR ''['' q;
          closeBrackets = countChar CHR '']'' q;
          e2 = (if openBrackets \<noteq> closeBrackets then [''Unbalanced brackets''] else []);
          singleQuotes = countChar (CHR 0x27) q;
          doubleQuotes = countChar (CHR 0x22) q;
          e3 = (if singleQuotes mod 2 \<noteq> 0 then [''Unbalanced single quotes''] else []);
          e4 = (if doubleQuotes mod 2 \<noteq> 0 then [''Unbalanced double quotes''] else []);
          e5 = (if str_includes q ''==='' \<or> str_includes q ''!==''
                then [''Use == or != instead of === or !==''] else []);
          lines = filter (\<lambda>l. trim l \<noteq> []) (splitChar (CHR 0x0A) q)
      in e1 @ e2 @ e3 @ e4 @ e5 @ pipeErrors 1 (drop 1 lines))"

text \<open>The callback of \<^verbatim>\<open>lines.map((line, index) => ...)\<close> in \<^verbatim>\<open>fixSyntaxErrors\<close>.\<close>

definition fixLine :: "string \<Rightarrow> nat \<Rightarrow> string" where
  "fixLine line index =
     (if index = 0 then line
      else (let trimmed = trim line in if needsPipe trimmed then ''| '' @ trimmed else line))"

fun mapIndex :: "('a \<Rightarrow> nat \<Rightarrow> 'b) \<Rightarrow> nat \<Rightarrow> 'a list \<Rightarrow> 'b list" where
  "mapIndex f i [] = []"
| "mapIndex f i (x # xs) = f x i # mapIndex f (i + 1) xs"

definition fixSyntaxErrors :: "string \<Rightarrow> string list \<Rightarrow> string" where
  "fixSyntaxErrors q errs =
     (let fixed1 = replaceAll ''!=='' ''!='' (replaceAll ''==='' ''=='' q);
          openParens = countChar CHR ''('' fixed1;
          closeParens = countChar CHR '')'' fixed1;
          fixed2 = (if openParens > closeParens
                    then fixed1 @ replicate (openParens - closeParens) CHR '')'' else fixed1);
          openBrackets = countChar CHR ''['' fixed2;
          closeBrackets = countChar CHR '']'' fixed2;
          fixed3 = (if openBrackets > closeBrackets
                    then fixed2 @ replicate (openBrackets - closeBrackets) CHR '']'' else fixed2);
          singleQuotes = countChar (CHR 0x27) fixed3;
          fixed4 = (if singleQuotes mod 2 \<noteq> 0 then fixed3 @ [CHR 0x27] else fixed3);
          doubleQuotes = countChar (CHR 0x22) fixed4;
          fixed5 = (if doubleQuotes mod 2 \<noteq> 0 then fixed4 @ [CHR 0x22] else fixed4);
          lines = splitChar (CHR 0x0A) fixed5;
          fixedLines = mapIndex fixLine 0 lines
      in join [CHR 0x0A] fixedLines)"

subsection \<open>Semantic validation\<close>

text \<open>
  \<^verbatim>\<open>kql.match(/(\b\w+)\s*\|\s*where/i)\<close>, the first match. The group begins at the
  start of a run of word characters and, since a space or a pipe follows it, is the whole
  run; behind it come spaces, a pipe, spaces and the word \<^verbatim>\<open>where\<close> in any case.
  \<open>tableMatchAt\<close> tries the match at the start of a run, \<open>tableMatch\<close> walks through the
  text, its flag telling whether the character before is a word character.
\<close>

definition tableMatchAt :: "string \<Rightarrow> string option" where
  "tableMatchAt s =
     (case dropWhile isSpace (dropWhile isWord s) of
        [] \<Rightarrow> None
      | c # r \<Rightarrow>
          if c = CHR ''|'' \<and> startsWith (toLowerCase (dropWhile isSpace r)) ''where''
          then Some (takeWhile isWord s) else None)"

fun tableMatch :: "bool \<Rightarrow> string \<Rightarrow> string option" where
  "tableMatch prevWord [] = None"
| "tableMatch prevWord (c # cs) =
     (if isWord c \<and> \<not> prevWord
      then (case tableMatchAt (c # cs) of
              Some w \<Rightarrow> Some w
            | None \<Rightarrow> tableMatch True cs)
      else tableMatch (isWord c) cs)"

text \<open>
  The alternatives
  \<^verbatim>\<open>(==|!=|>|<|>=|<=|contains|startswith|endswith)\<close> of the column pattern, tried in
  this order at the start of a text, the words in any case: the length of the first one
  that matches.
\<close>

definition operatorAt :: "string \<Rightarrow> nat option" where
  "operatorAt s =
     (let l = toLowerCase s
      in if startsWith s ''=='' then Some 2
         else if startsWith s ''!='' then Some 2
         else if startsWith s ''>'' then Some 1
         else if startsWith s ''<'' then Some 1
         else if startsWith s ''>='' then Some 2
         else if startsWith s ''<='' then Some 2
         else if startsWith l ''contains'' then Some 8
         else if startsWith l ''startswith'' then Some 10
         else if startsWith l ''endswith'' then Some 8
         else None)"

text \<open>
  One match of \<^verbatim>\<open>/(\b\w+)\s*(==|...|endswith)/gi\<close> at the start of a run of word
  characters: the group \<^verbatim>\<open>\w+\<close> takes \<open>k\<close> characters, the longest choice first, then
  come the spaces and an operator. The result is the group, the operator and the text
  behind the match.
\<close>

fun columnMatchAt :: "nat \<Rightarrow> string \<Rightarrow> (string \<times> string \<times> string) option" where
  "columnMatchAt 0 s = None"
| "columnMatchAt (Suc k) s =
     (let after = dropWhile isSpace (drop (Suc k) s)
      in case operatorAt after of
           Some n \<Rightarrow> Some (take (Suc k) s, take n after, drop n after)
         | None \<Rightarrow> columnMatchAt k s)"

text \<open>The loop \<^verbatim>\<open>while ((columnMatch = columnPattern.exec(kql)) !== null)\<close>: the
  groups of the successive matches, each search starting behind the match before.\<close>

function columnNames :: "bool \<Rightarrow> string \<Rightarrow> string list" where
  "columnNames prevWord [] = []"
| "columnNames prevWord (c # cs) =
     (if isWord c \<and> \<not> prevWord
      then (case columnMatchAt (length (takeWhile isWord (c # cs))) (c # cs) of
              Some (name, op, rest) \<Rightarrow> name # columnNames (isWord (last op)) rest
            | None \<Rightarrow> columnNames True cs)
      else columnNames (isWord c) cs)"
  by pat_completeness auto
termination
proof -
  have shorter: "length rest < length s"
    if "columnMatchAt k s = Some (name, op, rest)" and "s \<noteq> []"
    for k s name op rest
    using that
  proof (induction k)
    case 0
    then show ?case by simp
  next
    case (Suc k)
    show ?case
    proof (cases "operatorAt (dropWhile isSpace (drop (Suc k) s))")
      case None
      with Suc show ?thesis by simp
    next
      case (Some n)
      with Suc.prems have "rest = drop n (dropWhile isSpace (drop (Suc k) s))"
        by (simp add: Let_def)
      moreover have "length (dropWhile isSpace (drop (Suc k) s)) \<le> length (drop (Suc k) s)"
        by (rule length_dropWhile_le)
      ultimately have "length rest \<le> length s - Suc k" by simp
      with Suc.prems(2) show ?thesis by (cases s) auto
    qed
  qed
  show ?thesis
    by (relation "measure (\<lambda>(p, s). length s)")
       (auto dest: shorter simp del: columnMatchAt.simps)
qed

text \<open>The list \<^verbatim>\<open>keywords\<close> of the source.\<close>

definition kqlKeywords :: "string list" where
  "kqlKeywords =
    [''where'', ''summarize'', ''project'', ''extend'', ''join'', ''union'', ''count'',
     ''ago'', ''now'', ''timegenerated'', ''startofday'', ''endofday'']"

definition tableWarnings :: "string \<Rightarrow> QuerySchema \<Rightarrow> string list" where
  "tableWarnings q schema =
     (case tableMatch False q of
        None \<Rightarrow> []
      | Some tableName \<Rightarrow>
          if \<not> list_ex (\<lambda>t. toLowerCase t = toLowerCase tableName) (qtables schema)
          then [''Table '' @ [CHR 0x22] @ tableName @ [CHR 0x22] @
                '' not in provided schema (may still be valid)'']
          else [])"

fun columnWarnings :: "QuerySchema \<Rightarrow> string set \<Rightarrow> string list \<Rightarrow> string list" where
  "columnWarnings schema checkedColumns [] = []"
| "columnWarnings schema checkedColumns (columnName # others) =
     (if toLowerCase columnName \<in> checkedColumns then columnWarnings schema checkedColumns others
      else
        (if toLowerCase columnName \<notin> set kqlKeywords \<and> qcolumns schema \<noteq> [] \<and>
            \<not> list_ex (\<lambda>c. toLowerCase c = toLowerCase columnName) (qcolumns schema)
         then [''Column '' @ [CHR 0x22] @ columnName @ [CHR 0x22] @
               '' not in provided schema (may still be valid)'']
         else [])
        @ columnWarnings schema (insert (toLowerCase columnName) checkedColumns) others)"

text \<open>The warnings are computed and dropped: the function returns the empty list on
  every path.\<close>

definition validateSemantics :: "string \<Rightarrow> QuerySchema \<Rightarrow> string list" where
  "validateSemantics q schema =
     (if qtables schema = [] then []
      else (let warnings = tableWarnings q schema @ columnWarnings schema {} (columnNames False q)
            in []))"

subsection \<open>Repair of semantic errors\<close>

definition findClosestMatch :: "string \<Rightarrow> string list \<Rightarrow> string option" where
  "findClosestMatch target candidates =
     (let targetLower = toLowerCase target
      in fst (fold (\<lambda>candidate (bestMatch, bestScore).
                let candidateLower = toLowerCase candidate
                in if candidateLower = targetLower then (Some candidate, 1)
                   else if str_includes candidateLower targetLower \<or>
                           str_includes targetLower candidateLower
                   then (let score = real (min (length candidateLower) (length targetLower)) /
                                    real (max (length candidateLower) (length targetLower))
                         in if score > bestScore then (Some candidate, score)
                            else (bestMatch, bestScore))
                   else (bestMatch, bestScore))
              candidates (None, 0 :: real)))"

text \<open>\<^verbatim>\<open>error.match(/"([^"]+)"/)\<close>, the group of the first match.\<close>

definition firstQuoted :: "string \<Rightarrow> string option" where
  "firstQuoted s =
     (case quotedMatches s of
        [] \<Rightarrow> None
      | m # _ \<Rightarrow> Some (filter (\<lambda>x. x \<noteq> CHR 0x22) m))"

text \<open>
  \<^verbatim>\<open>fixSemanticErrors\<close> replaces a name by
  \<^verbatim>\<open>fixed.replace(new RegExp(`\\b${name}\\b`, 'gi'), closest)\<close>. The regular expression
  is built at run time from the text between the quotes of an error message, so this one
  replacement is the parameter \<open>replaceWord name closest fixed\<close> of the model; all the
  rest of the function is as in the source. \<^verbatim>\<open>if (closest)\<close> is false for no match and
  for an empty match.
\<close>

definition fixName ::
  "(string \<Rightarrow> string \<Rightarrow> string \<Rightarrow> string) \<Rightarrow> string \<Rightarrow> string list \<Rightarrow> string \<Rightarrow> string" where
  "fixName replaceWord error candidates fixed =
     (case firstQuoted error of
        None \<Rightarrow> fixed
      | Some invalid \<Rightarrow>
          (case findClosestMatch invalid candidates of
             None \<Rightarrow> fixed
           | Some closest \<Rightarrow> if closest = [] then fixed else replaceWord invalid closest fixed))"

definition fixSemanticErrors ::
  "(string \<Rightarrow> string \<Rightarrow> string \<Rightarrow> string) \<Rightarrow> string \<Rightarrow> string list \<Rightarrow> QuerySchema \<Rightarrow> string" where
  "fixSemanticErrors replaceWord q errs schema =
     fold (\<lambda>error fixed.
        let fixed1 = (if str_includes error ''Table'' \<and> str_includes error ''not found''
                      then fixName replaceWord error (qtables schema) fixed else fixed)
        in if str_includes error ''Column'' \<and> str_includes error ''not found''
           then fixName replaceWord error (qcolumns schema) fixed1 else fixed1)
       errs q"

subsection \<open>The repair loop\<close>

text \<open>
  The \<^verbatim>\<open>while (attempts < this.maxAttempts)\<close> loop of \<^verbatim>\<open>refineQuery\<close> with its
  four variables; its value is the value that \<^verbatim>\<open>refineQuery\<close> returns, from inside the
  loop or behind it. The optional schema argument is an \<open>option\<close>.
\<close>

function refineLoop ::
  "(string \<Rightarrow> string \<Rightarrow> string \<Rightarrow> string) \<Rightarrow> QuerySchema option \<Rightarrow>
   string \<Rightarrow> nat \<Rightarrow> string list \<Rightarrow> string list \<Rightarrow> RefinementResult" where
  "refineLoop replaceWord schema q n errs fxs =
     (if n < maxAttempts then
        (let syntaxErrors = validateSyntax q
         in if length syntaxErrors > 0
            then refineLoop replaceWord schema (fixSyntaxErrors q syntaxErrors) (n + 1)
                   (errs @ syntaxErrors)
                   (fxs @ [''Fixed syntax errors: '' @ join '', '' syntaxErrors])
            else
              (case schema of
                 None \<Rightarrow>
                   \<lparr>query = q, isValid = True, errors = [], fixes_applied = fxs, attempts = n\<rparr>
               | Some sch \<Rightarrow>
                   (let semanticErrors = validateSemantics q sch
                    in if length semanticErrors > 0
                       then refineLoop replaceWord schema
                              (fixSemanticErrors replaceWord q semanticErrors sch) (n + 1)
                              (errs @ semanticErrors)
                              (fxs @ [''Fixed semantic errors: '' @ join '', '' semanticErrors])
                       else \<lparr>query = q, isValid = True, errors = [], fixes_applied = fxs,
                              attempts = n\<rparr>)))
      else \<lparr>query = q, isValid = (length errs = 0), errors = errs, fixes_applied = fxs,
             attempts = n\<rparr>)"
  by pat_completeness auto
termination
  by (relation "measure (\<lambda>(rw, schema, q, n, errs, fxs). maxAttempts - n)") auto

declare refineLoop.simps [simp del]

definition refineQuery ::
  "(string \<Rightarrow> string \<Rightarrow> string \<Rightarrow> string) \<Rightarrow> string \<Rightarrow> QuerySchema option \<Rightarrow> RefinementResult" where
  "refineQuery replaceWord kql_text schema = refineLoop replaceWord schema (trim kql_text) 0 [] []"

section \<open>Engine (engine/nl2kql-engine.ts)\<close>

record NL2KQLRequest =
  request_query :: string
  request_database :: "string option"
  cluster :: "string option"

record Metadata =
  tokensUsed :: "nat option"
  responseTime :: "int option"
  confidence :: "real option"

record NL2KQLResponse =
  success :: bool
  response_kql :: "string option"
  error :: "string option"
  refinedSchema :: "QuerySchema option"
  examplesUsed :: "nat option"
  refinements :: "nat option"
  metadata :: "Metadata option"

record LLMResponse =
  content :: string
  llm_tokensUsed :: "nat option"
  finishReason :: "string option"

text \<open>
  A thrown value is one of three: an \<^verbatim>\<open>Error\<close> object, with its message; a value that
  is not an \<^verbatim>\<open>Error\<close> and that \<^verbatim>\<open>String(error)\<close> converts, with the text of the
  conversion; a value that is not an \<^verbatim>\<open>Error\<close> and whose conversion by
  \<^verbatim>\<open>String(error)\<close> throws, with the value that the conversion throws (for an object
  without \<^verbatim>\<open>toString\<close> and \<^verbatim>\<open>valueOf\<close>, such as \<^verbatim>\<open>Object.create(null)\<close>, a
  \<^verbatim>\<open>TypeError\<close>). A call that may throw has a result of type \<open>thrown + 'a\<close>.
\<close>

datatype thrown = ErrorObject string | OtherValue string | NoString thrown

text \<open>\<^verbatim>\<open>error instanceof Error ? error.message : String(error)\<close>: the text, or the value
  that the conversion throws.\<close>

fun thrownMessage :: "thrown \<Rightarrow> thrown + string" where
  "thrownMessage (ErrorObject message) = Inr message"
| "thrownMessage (OtherValue text) = Inr text"
| "thrownMessage (NoString t) = Inl t"

text \<open>
  The collaborators of the engine, each a call that returns or throws. The generation
  client is outside of the repository's core; the other three are the components above.
\<close>

record Engine =
  schemaRefiner :: "string \<Rightarrow> DatabaseSchema \<Rightarrow> thrown + RefinedSchema"
  fewShotSelector :: "string \<Rightarrow> string option \<Rightarrow> nat \<Rightarrow> thrown + Example list"
  queryRefiner :: "string \<Rightarrow> QuerySchema option \<Rightarrow> thrown + RefinementResult"
  llmClient :: "string \<Rightarrow> QuerySchema \<Rightarrow> (string \<times> string) list \<Rightarrow> thrown + LLMResponse"
  defaultSchema :: DatabaseSchema

text \<open>The \<^verbatim>\<open>catch\<close> block of \<^verbatim>\<open>convert\<close>: it returns the failure response, or
  throws what the conversion of the caught value throws.\<close>

definition catchBlock :: "int \<Rightarrow> int \<Rightarrow> thrown \<Rightarrow> thrown + NL2KQLResponse" where
  "catchBlock startTime now e =
     (case thrownMessage e of
        Inl t \<Rightarrow> Inl t
      | Inr message \<Rightarrow>
          Inr \<lparr>success = False, response_kql = None, error = Some message,
               refinedSchema = None, examplesUsed = None, refinements = None,
               metadata = Some \<lparr>tokensUsed = None, responseTime = Some (now - startTime),
                                confidence = None\<rparr>\<rparr>)"

text \<open>
  \<^verbatim>\<open>convert\<close>: \<open>startTime\<close> is the reading of \<^verbatim>\<open>Date.now()\<close> at the entry, \<open>now\<close> the
  second reading, taken behind the last step or in the \<^verbatim>\<open>catch\<close> block. A step that
  throws ends the \<^verbatim>\<open>try\<close> block. The result is \<open>Inr\<close> of the response that the
  promise resolves to, or \<open>Inl\<close> of the value that the promise is rejected with.
\<close>

definition convert ::
  "Engine \<Rightarrow> int \<Rightarrow> int \<Rightarrow> NL2KQLRequest \<Rightarrow> thrown + NL2KQLResponse" where
  "convert eng startTime now request =
     (case schemaRefiner eng (request_query request) (defaultSchema eng) of
        Inl e \<Rightarrow> catchBlock startTime now e
      | Inr refined \<Rightarrow>
     (case fewShotSelector eng (request_query request) (request_database request) 3 of
        Inl e \<Rightarrow> catchBlock startTime now e
      | Inr examples \<Rightarrow>
     (let names = \<lparr>qtables = map tname (rtables refined),
                   qcolumns = map cname (rcolumns refined)\<rparr>
      in
     (case llmClient eng (request_query request) names (map (\<lambda>ex. (nlq ex, kql ex)) examples) of
        Inl e \<Rightarrow> catchBlock startTime now e
      | Inr llmResponse \<Rightarrow>
     (case queryRefiner eng (content llmResponse) (Some names) of
        Inl e \<Rightarrow> catchBlock startTime now e
      | Inr refinementResult \<Rightarrow>
          Inr \<lparr>success = isValid refinementResult,
               response_kql = Some (query refinementResult),
               error = None,
               refinedSchema = Some names,
               examplesUsed = Some (length examples),
               refinements = Some (attempts refinementResult),
               metadata = Some \<lparr>tokensUsed = llm_tokensUsed llmResponse,
                                responseTime = Some (now - startTime),
                                confidence = Some (if isValid refinementResult then 9 / 10
                                                   else 7 / 10)\<rparr>\<rparr>)))))"


definition col :: "string \<Rightarrow> string \<Rightarrow> ColumnSchema" where
  "col n t = \<lparr>cname = n, ctype = t, cdescription = None\<rparr>"

definition createDefaultSchema :: DatabaseSchema where
  "createDefaultSchema =
     \<lparr>database = ''SecurityDatabase'',
      tables =
       [\<lparr>tname = ''SecurityEvent'',
         tdescription = Some ''Security events from Windows computers, including authentication, authorization, and audit events'',
         columns = [col ''TimeGenerated'' ''datetime'', col ''Account'' ''string'',
                    col ''AccountType'' ''string'', col ''Activity'' ''string'',
                    col ''Computer'' ''string'', col ''EventID'' ''int'',
                    col ''EventResult'' ''string'', col ''SourceIP'' ''string''],
         domain = Some [''security'', ''windows'', ''authentication'']\<rparr>,
        \<lparr>tname = ''EventLog'',
         tdescription = Some ''Windows event logs including system, application, and security events'',
         columns = [col ''TimeGenerated'' ''datetime'', col ''Level'' ''string'',
                    col ''Message'' ''string'', col ''Source'' ''string'',
                    col ''EventID'' ''int'', col ''Computer'' ''string''],
         domain = Some [''logs'', ''windows'', ''events'']\<rparr>,
        \<lparr>tname = ''ProcessEvent'',
         tdescription = Some ''Process creation and termination events'',
         columns = [col ''TimeGenerated'' ''datetime'', col ''EventType'' ''string'',
                    col ''ProcessName'' ''string'', col ''CommandLine'' ''string'',
                    col ''Computer'' ''string'', col ''User'' ''string''],
         domain = Some [''process'', ''security'', ''monitoring'']\<rparr>,
        \<lparr>tname = ''NetworkConnection'',
         tdescription = Some ''Network connection events including inbound and outbound connections'',
         columns = [col ''TimeGenerated'' ''datetime'', col ''SourceIP'' ''string'',
                    col ''RemoteIP'' ''string'', col ''Port'' ''int'',
                    col ''Protocol'' ''string'', col ''Computer'' ''string''],
         domain = Some [''network'', ''security'', ''connections'']\<rparr>,
        \<lparr>tname = ''ThreatIntelligenceIndicator'',
         tdescription = Some ''Threat intelligence indicators including malicious IPs, domains, and hashes'',
         columns = [col ''TimeGenerated'' ''datetime'', col ''IPAddress'' ''string'',
                    col ''ThreatType'' ''string'', col ''ThreatSeverity'' ''string'',
                    col ''Description'' ''string''],
         domain = Some [''threat'', ''security'', ''intelligence'']\<rparr>]\<rparr>"



section \<open>Notions of the proofs\<close>

text \<open>A string that \<open>trim\<close> leaves as it is: empty, or with no space at either end.\<close>

definition trimmed :: "string \<Rightarrow> bool" where
  "trimmed s = (s = [] \<or> (\<not> isSpace (hd s) \<and> \<not> isSpace (last s)))"

text \<open>The replacement used where a theorem is applied to a concrete input: it leaves the
  text as it is.\<close>

definition keepText :: "string \<Rightarrow> string \<Rightarrow> string \<Rightarrow> string" where
  "keepText name closest fixed = fixed"

section \<open>Schema Refiner: properties\<close>

text \<open>
  Claim C5. For every question and every schema, each table of the refined schema is one
  of the tables of the source schema and each column of the refined schema is a column of
  some table of the source schema: \<open>refineSchema\<close> makes up no entry.
\<close>

theorem refineSchema_no_fabrication:
  "set (rtables (refineSchema q fullSchema)) \<subseteq> set (tables fullSchema) \<and>
   set (rcolumns (refineSchema q fullSchema)) \<subseteq> (\<Union>t \<in> set (tables fullSchema). set (columns t))"
proof
  have "set (map item (take 5 (rankedTables q fullSchema))) \<subseteq> item ` set (rankedTables q fullSchema)"
    using set_take_subset [of 5 "rankedTables q fullSchema"] by auto
  also have "\<dots> \<subseteq> set (tables fullSchema)"
    by (auto simp: rankedTables_def rankByRelevance_def matchTables_def)
  finally show "set (rtables (refineSchema q fullSchema)) \<subseteq> set (tables fullSchema)"
    by (simp add: refineSchema_def selectTopK_def)
next
  have "set (map item (take 20 (rankedColumns q fullSchema))) \<subseteq> item ` set (rankedColumns q fullSchema)"
    using set_take_subset [of 20 "rankedColumns q fullSchema"] by auto
  also have "\<dots> \<subseteq> (\<Union>t \<in> set (tables fullSchema). set (columns t))"
    by (auto simp: rankedColumns_def rankByRelevance_def matchColumns_def)
  finally show "set (rcolumns (refineSchema q fullSchema))
      \<subseteq> (\<Union>t \<in> set (tables fullSchema). set (columns t))"
    by (simp add: refineSchema_def selectTopK_def)
qed

text \<open>Claim C5 at the default schema and the question of the first default example.\<close>

theorem refineSchema_no_fabrication_witness:
  "set (rtables (refineSchema ''Show me all security events from the last hour'' createDefaultSchema))
     \<subseteq> set (tables createDefaultSchema) \<and>
   set (rcolumns (refineSchema ''Show me all security events from the last hour'' createDefaultSchema))
     \<subseteq> (\<Union>t \<in> set (tables createDefaultSchema). set (columns t))"
  by (rule refineSchema_no_fabrication)

text \<open>
  Claim C6. For every question and every schema, of any size, the refined schema has at
  most 5 tables and at most 20 columns.
\<close>

theorem refineSchema_caps:
  "length (rtables (refineSchema q fullSchema)) \<le> 5 \<and>
   length (rcolumns (refineSchema q fullSchema)) \<le> 20"
  by (simp add: refineSchema_def selectTopK_def)

text \<open>Claim C6 at the default schema, which has 5 tables and 31 columns.\<close>

theorem refineSchema_caps_witness:
  "length (rtables (refineSchema ''Show me all security events from the last hour'' createDefaultSchema)) \<le> 5 \<and>
   length (rcolumns (refineSchema ''Show me all security events from the last hour'' createDefaultSchema)) \<le> 20"
  by (rule refineSchema_caps)

lemma rankByRelevance_positive: "m \<in> set (rankByRelevance ms) \<Longrightarrow> 0 < score m"
  by (simp add: rankByRelevance_def)

lemma topScore_zero_iff: "topScore (rankByRelevance ms) = 0 \<longleftrightarrow> rankByRelevance ms = []"
proof (cases "rankByRelevance ms")
  case Nil
  then show ?thesis by (simp add: topScore_def)
next
  case (Cons m rest)
  then have "m \<in> set (rankByRelevance ms)" by simp
  then have "0 < score m" by (rule rankByRelevance_positive)
  with Cons show ?thesis by (simp add: topScore_def)
qed

text \<open>
  Claim C2, as the code has it. The relevance of the refined schema is the average of two
  numbers: the score of the first ranked table, or 0 when no table is ranked, and the
  score of the first ranked column, or 0 when no column is ranked. It is 0 exactly when
  both ranked lists are empty.
\<close>

theorem refineSchema_relevance:
  "relevance (refineSchema q fullSchema) =
     (real (topScore (rankedTables q fullSchema)) + real (topScore (rankedColumns q fullSchema))) / 2 \<and>
   (relevance (refineSchema q fullSchema) = 0 \<longleftrightarrow>
      rankedTables q fullSchema = [] \<and> rankedColumns q fullSchema = [])"
proof -
  have t: "topScore (rankedTables q fullSchema) = 0 \<longleftrightarrow> rankedTables q fullSchema = []"
    unfolding rankedTables_def by (rule topScore_zero_iff)
  have c: "topScore (rankedColumns q fullSchema) = 0 \<longleftrightarrow> rankedColumns q fullSchema = []"
    unfolding rankedColumns_def by (rule topScore_zero_iff)
  have r: "relevance (refineSchema q fullSchema) =
     (real (topScore (rankedTables q fullSchema)) + real (topScore (rankedColumns q fullSchema))) / 2"
    by (simp add: refineSchema_def computeOverallRelevance_def)
  have "relevance (refineSchema q fullSchema) = 0 \<longleftrightarrow>
      topScore (rankedTables q fullSchema) = 0 \<and> topScore (rankedColumns q fullSchema) = 0"
    unfolding r by (simp add: add_nonneg_eq_0_iff)
  with r t c show ?thesis by simp
qed

text \<open>Claim C2 as amended, at the empty question (nothing is ranked, the relevance is 0)
  and at a question that ranks a table (the relevance is not 0).\<close>

theorem refineSchema_relevance_witness:
  "rankedTables [] createDefaultSchema = [] \<and> rankedColumns [] createDefaultSchema = [] \<and>
   relevance (refineSchema [] createDefaultSchema) = 0 \<and>
   rankedTables ''security''
     \<lparr>database = ''SecurityDatabase'',
      tables = [\<lparr>tname = ''SecurityEvent'', tdescription = None,
                 columns = [col ''EventID'' ''int''], domain = Some [''security'']\<rparr>]\<rparr> \<noteq> [] \<and>
   relevance (refineSchema ''security''
     \<lparr>database = ''SecurityDatabase'',
      tables = [\<lparr>tname = ''SecurityEvent'', tdescription = None,
                 columns = [col ''EventID'' ''int''], domain = Some [''security'']\<rparr>]\<rparr>) \<noteq> 0"
proof -
  let ?S = "\<lparr>database = ''SecurityDatabase'',
      tables = [\<lparr>tname = ''SecurityEvent'', tdescription = None,
                 columns = [col ''EventID'' ''int''], domain = Some [''security'']\<rparr>]\<rparr>"
  have a: "rankedTables [] createDefaultSchema = []" by code_simp
  have b: "rankedColumns [] createDefaultSchema = []" by code_simp
  have c: "rankedTables ''security'' ?S \<noteq> []" by code_simp
  have "relevance (refineSchema [] createDefaultSchema) = 0"
    using a b refineSchema_relevance [of "[]" createDefaultSchema] by blast
  moreover have "relevance (refineSchema ''security'' ?S) \<noteq> 0"
    using c refineSchema_relevance [of "''security''" ?S] by blast
  ultimately show ?thesis using a b c by blast
qed

text \<open>
  Claim C2 as stated fails: for the question \<^verbatim>\<open>network\<close> and a schema with the table
  \<^verbatim>\<open>NetworkConnection\<close> no column is ranked, and the relevance is 13 / 2, not 0.
\<close>

theorem refineSchema_relevance_counterexample:
  "rankedColumns ''network''
     \<lparr>database = ''SecurityDatabase'',
      tables = [\<lparr>tname = ''NetworkConnection'', tdescription = None,
                 columns = [col ''RemoteIP'' ''string'', col ''Port'' ''int''],
                 domain = Some [''network'']\<rparr>]\<rparr> = [] \<and>
   relevance (refineSchema ''network''
     \<lparr>database = ''SecurityDatabase'',
      tables = [\<lparr>tname = ''NetworkConnection'', tdescription = None,
                 columns = [col ''RemoteIP'' ''string'', col ''Port'' ''int''],
                 domain = Some [''network'']\<rparr>]\<rparr>) = 13 / 2"
  by code_simp

section \<open>Few-shot Selector: properties\<close>

lemma dedup_set: "set (dedup xs) = set xs"
  by (simp add: dedup_def)

lemma dedup_distinct: "distinct (dedup xs)"
  by (simp add: dedup_def)

text \<open>
  Claim C3. The similarity is to be the Jaccard index of the two token sets, plus the
  bonus, clamped to 1. The code counts the intersection on the token list of the first
  text, with its repetitions: for the question \<^verbatim>\<open>show logs and show errors\<close> and the
  fourth default example it gives 3 / 9, where the index of the token sets is 2 / 9.
\<close>

theorem computeSimilarity_counts_repetitions:
  "computeSimilarity ''show logs and show errors'' ''Show me error logs from the last 24 hours'' = 1 / 3 \<and>
   computeSimilarity_spec ''show logs and show errors'' ''Show me error logs from the last 24 hours'' = 2 / 9"
  by code_simp

text \<open>Where the tokens of the first text are all different, the code computes the
  similarity of the specification.\<close>

lemma computeSimilarity_distinct_tokens:
  assumes "distinct (tokenize nlq1)"
  shows "computeSimilarity nlq1 nlq2 = computeSimilarity_spec nlq1 nlq2"
proof -
  let ?w1 = "tokenize nlq1" and ?w2 = "tokenize nlq2"
  have "set (filter (\<lambda>w. w \<in> set ?w2) ?w1) = set ?w1 \<inter> set ?w2" by auto
  moreover have "distinct (filter (\<lambda>w. w \<in> set ?w2) ?w1)" using assms by simp
  ultimately have i: "length (filter (\<lambda>w. w \<in> set ?w2) ?w1) = card (set ?w1 \<inter> set ?w2)"
    using distinct_card by fastforce
  have u: "length (dedup (?w1 @ ?w2)) = card (set ?w1 \<union> set ?w2)"
    using distinct_card [OF dedup_distinct, of "?w1 @ ?w2"] by (simp add: dedup_set)
  have e: "(length (dedup (?w1 @ ?w2)) = 0) = (set ?w1 \<union> set ?w2 = {})"
    using u by simp
  show ?thesis
    unfolding computeSimilarity_def computeSimilarity_spec_def Let_def i u e by simp
qed

section \<open>Entity extraction: properties\<close>

text \<open>
  Claim C4. Every extracted entity is to be in lower case. The code puts a quoted part of
  the question among the entities as it is written: the entity \<^verbatim>\<open>SecurityEvent\<close> below
  keeps its capitals, while the capitalised word \<^verbatim>\<open>Show\<close> is lowered.
\<close>

theorem extractEntities_keeps_quoted_case:
  \<open>extractEntities ''Show "SecurityEvent"'' = [''security'', ''event'', ''SecurityEvent'', ''show'']\<close>
  by code_simp


text \<open>The entities are free of duplicates, and those of a question without a quoted part
  are in lower case.\<close>

lemma extractEntities_distinct: "distinct (extractEntities q)"
  by (simp add: extractEntities_def Let_def dedup_distinct)

lemma toLowerChar_idem: "toLowerChar (toLowerChar c) = toLowerChar c"
proof (cases "isUpper c")
  case True
  then have "(of_char c :: nat) + 32 < 256" by (simp add: isUpper_def)
  then have "(of_char (char_of ((of_char c :: nat) + 32)) :: nat) = of_char c + 32"
    by (simp add: of_char_of)
  with True have "\<not> isUpper (char_of ((of_char c :: nat) + 32))"
    by (simp add: isUpper_def)
  with True show ?thesis by (simp add: toLowerChar_def)
next
  case False
  then show ?thesis by (simp add: toLowerChar_def)
qed

lemma toLowerCase_idem: "toLowerCase (toLowerCase s) = toLowerCase s"
  by (simp add: toLowerCase_def toLowerChar_idem)

lemma domainTerms_lower: "t \<in> set domainTerms \<Longrightarrow> toLowerCase t = t"
proof -
  have "list_all (\<lambda>t. toLowerCase t = t) domainTerms" by code_simp
  then show "t \<in> set domainTerms \<Longrightarrow> toLowerCase t = t" by (simp add: list_all_iff)
qed

lemma extractEntities_lower_without_quotes:
  assumes "quotedMatches q = []" and "e \<in> set (extractEntities q)"
  shows "toLowerCase e = e"
  using assms
  by (auto simp: extractEntities_def Let_def dedup_set domainTerms_lower toLowerCase_idem)


section \<open>Query Refiner: properties\<close>

lemma last_dropWhile: "dropWhile P xs \<noteq> [] \<Longrightarrow> last (dropWhile P xs) = last xs"
  by (induction xs) (auto split: if_splits)

lemma trimmed_trim: "trimmed (trim s)"
proof (cases "trim s = []")
  case True
  then show ?thesis by (simp add: trimmed_def)
next
  case False
  define t where "t = dropWhile isSpace s"
  define u where "u = dropWhile isSpace (rev t)"
  have ts: "trim s = rev u" by (simp add: trim_def t_def u_def)
  with False have u: "u \<noteq> []" by simp
  then have rt: "rev t \<noteq> []" by (auto simp: u_def)
  then have t: "t \<noteq> []" by simp
  have "\<not> isSpace (hd u)" using u unfolding u_def by (rule hd_dropWhile)
  then have l: "\<not> isSpace (last (trim s))" using u by (simp add: ts last_rev)
  have "last u = last (rev t)" using u unfolding u_def by (rule last_dropWhile)
  then have "last u = hd t" using t by (simp add: last_rev)
  moreover have "\<not> isSpace (hd t)" using t unfolding t_def by (rule hd_dropWhile)
  ultimately have "\<not> isSpace (hd (trim s))" using u by (simp add: ts hd_rev)
  with l show ?thesis by (simp add: trimmed_def)
qed

lemma trim_trimmed: "trimmed s \<Longrightarrow> trim s = s"
proof (cases "s = []")
  case True then show ?thesis by (simp add: trim_def)
next
  case False
  assume "trimmed s"
  with False have h: "\<not> isSpace (hd s)" and l: "\<not> isSpace (last s)" by (auto simp: trimmed_def)
  from h False have 1: "dropWhile isSpace s = s" by (cases s) auto
  from l False have "\<not> isSpace (hd (rev s))" by (simp add: hd_rev)
  with False have 2: "dropWhile isSpace (rev s) = rev s" by (cases "rev s") auto
  show ?thesis by (simp add: trim_def 1 2)
qed


lemma replaceAll_Nil_iff: "rep \<noteq> [] \<Longrightarrow> (replaceAll pat rep s = []) = (s = [])"
  by (cases s) auto

lemma hd_replaceAll:
  "rep \<noteq> [] \<Longrightarrow> \<not> isSpace (hd rep) \<Longrightarrow> s \<noteq> [] \<Longrightarrow> \<not> isSpace (hd s)
   \<Longrightarrow> \<not> isSpace (hd (replaceAll pat rep s))"
  by (cases s) auto

lemma last_replaceAll:
  "rep \<noteq> [] \<Longrightarrow> \<not> isSpace (last rep) \<Longrightarrow> s \<noteq> [] \<Longrightarrow> \<not> isSpace (last s)
   \<Longrightarrow> \<not> isSpace (last (replaceAll pat rep s))"
proof (induction pat rep s rule: replaceAll.induct)
  case (1 pat rep)
  then show ?case by simp
next
  case (2 pat rep c cs)
  show ?case
  proof (cases "pat \<noteq> [] \<and> startsWith (c # cs) pat")
    case True
    show ?thesis
    proof (cases "drop (length pat) (c # cs) = []")
      case True
      with \<open>pat \<noteq> [] \<and> startsWith (c # cs) pat\<close> 2 show ?thesis by simp
    next
      case False
      then have "last (drop (length pat) (c # cs)) = last (c # cs)" by (intro last_drop) simp
      with 2 True False show ?thesis
        by (simp add: replaceAll_Nil_iff)
    qed
  next
    case False
    with 2 show ?thesis by (cases cs) (auto simp: replaceAll_Nil_iff)
  qed
qed

lemma trimmed_replaceAll:
  "rep \<noteq> [] \<Longrightarrow> \<not> isSpace (hd rep) \<Longrightarrow> \<not> isSpace (last rep) \<Longrightarrow> trimmed s
   \<Longrightarrow> trimmed (replaceAll pat rep s)"
  unfolding trimmed_def
  by (metis hd_replaceAll last_replaceAll replaceAll.simps(1))

lemma trimmed_append:
  "trimmed s \<Longrightarrow> \<forall>c\<in>set t. \<not> isSpace c \<Longrightarrow> trimmed (s @ t)"
  by (cases s; cases "t = []") (auto simp: trimmed_def)


lemma splitChar_not_Nil: "splitChar sep s \<noteq> []"
  by (induction s) (auto split: list.splits)

lemma hd_splitChar:
  "s \<noteq> [] \<Longrightarrow> hd s \<noteq> sep \<Longrightarrow> hd (splitChar sep s) \<noteq> [] \<and> hd (hd (splitChar sep s)) = hd s"
  by (cases s) (auto split: list.splits)

lemma last_splitChar:
  "s \<noteq> [] \<Longrightarrow> last s \<noteq> sep
   \<Longrightarrow> last (splitChar sep s) \<noteq> [] \<and> last (last (splitChar sep s)) = last s"
proof (induction s)
  case Nil
  then show ?case by simp
next
  case (Cons c cs)
  show ?case
  proof (cases "cs = []")
    case True
    with Cons.prems show ?thesis by simp
  next
    case False
    with Cons have ih: "last (splitChar sep cs) \<noteq> [] \<and> last (last (splitChar sep cs)) = last cs"
      by simp
    show ?thesis
    proof (cases "splitChar sep cs")
      case Nil
      then show ?thesis using splitChar_not_Nil [of sep cs] by simp
    next
      case (Cons l ls)
      with ih False show ?thesis by (cases "ls = []") auto
    qed
  qed
qed

lemma join_Cons: "join sep (x # xs) = x @ concat (map (\<lambda>y. sep @ y) xs)"
  by (induction xs arbitrary: x) auto

lemma last_concat_sep:
  "xs \<noteq> [] \<Longrightarrow> last xs \<noteq> [] \<Longrightarrow> last (concat (map (\<lambda>y. sep @ y) xs)) = last (last xs)"
proof (induction xs)
  case Nil
  then show ?case by simp
next
  case (Cons a xs)
  show ?case
  proof (cases "xs = []")
    case True
    with Cons.prems show ?thesis by simp
  next
    case False
    with Cons.prems have "last xs \<noteq> []" by simp
    with False have "concat (map (\<lambda>y. sep @ y) xs) \<noteq> []"
      by (metis Nil_is_append_conv concat_eq_Nil_conv last_in_set last_map map_is_Nil_conv)
    with Cons False show ?thesis by simp
  qed
qed

lemma mapIndex_not_Nil: "(mapIndex f i xs = []) = (xs = [])"
  by (cases xs) auto

lemma last_mapIndex: "xs \<noteq> [] \<Longrightarrow> \<exists>j. last (mapIndex f i xs) = f (last xs) j"
  by (induction xs arbitrary: i) (auto simp: mapIndex_not_Nil)

lemma fixLine_last:
  assumes "l \<noteq> []" and "\<not> isSpace (last l)"
  shows "fixLine l j \<noteq> [] \<and> \<not> isSpace (last (fixLine l j))"
proof (cases "j \<noteq> 0 \<and> needsPipe (trim l)")
  case True
  then have ne: "trim l \<noteq> []" by (simp add: needsPipe_def)
  with trimmed_trim [of l] have "\<not> isSpace (last (trim l))" by (simp add: trimmed_def)
  with True ne show ?thesis by (simp add: fixLine_def)
next
  case False
  with assms show ?thesis by (auto simp: fixLine_def Let_def)
qed

lemma trimmed_fixLines:
  assumes "trimmed s"
  shows "trimmed (join [CHR 0x0A] (mapIndex fixLine 0 (splitChar (CHR 0x0A) s)))"
proof (cases "s = []")
  case True
  then show ?thesis by (simp add: fixLine_def trimmed_def)
next
  case False
  with assms have h: "\<not> isSpace (hd s)" and l: "\<not> isSpace (last s)"
    by (auto simp: trimmed_def)
  have nl: "isSpace (CHR 0x0A)" by (simp add: isSpace_def)
  from h nl have hs: "hd s \<noteq> CHR 0x0A" by auto
  from l nl have ls: "last s \<noteq> CHR 0x0A" by auto
  obtain l0 rest where sp: "splitChar (CHR 0x0A) s = l0 # rest"
    using splitChar_not_Nil [of "CHR 0x0A" s] by (cases "splitChar (CHR 0x0A) s") auto
  from hd_splitChar [OF False hs] sp have l0: "l0 \<noteq> []" "hd l0 = hd s" by auto
  let ?r = "join [CHR 0x0A] (mapIndex fixLine 0 (splitChar (CHR 0x0A) s))"
  have r: "?r = l0 @ concat (map (\<lambda>y. [CHR 0x0A] @ y) (mapIndex fixLine (Suc 0) rest))"
    by (simp add: sp join_Cons fixLine_def)
  from r l0 have hd_ok: "?r \<noteq> [] \<and> hd ?r = hd s" by simp
  have last_ok: "\<not> isSpace (last ?r)"
  proof (cases "rest = []")
    case True
    with last_splitChar [OF False ls] sp have "last l0 = last s" by simp
    with True r l0 l show ?thesis by simp
  next
    case False
    with last_splitChar [OF \<open>s \<noteq> []\<close> ls] sp
    have lr: "last rest \<noteq> []" "last (last rest) = last s" by auto
    from False obtain j where j: "last (mapIndex fixLine (Suc 0) rest) = fixLine (last rest) j"
      using last_mapIndex by blast
    from lr l have fl: "fixLine (last rest) j \<noteq> [] \<and> \<not> isSpace (last (fixLine (last rest) j))"
      by (intro fixLine_last) auto
    have ne: "mapIndex fixLine (Suc 0) rest \<noteq> []" using False by (simp add: mapIndex_not_Nil)
    have "last (concat (map (\<lambda>y. [CHR 0x0A] @ y) (mapIndex fixLine (Suc 0) rest)))
          = last (last (mapIndex fixLine (Suc 0) rest))"
      using ne fl j by (intro last_concat_sep) auto
    also have "\<dots> = last (fixLine (last rest) j)"
      by (simp add: j)
    finally show ?thesis using r fl ne by (simp add: last_append)
  qed
  from hd_ok last_ok h show ?thesis by (simp add: trimmed_def)
qed


lemma trimmed_fixSyntaxErrors:
  assumes "trimmed q"
  shows "trimmed (fixSyntaxErrors q errs)"
proof -
  have sp: "\<not> isSpace CHR ''=''" "\<not> isSpace CHR ''!''" "\<not> isSpace CHR '')''"
    "\<not> isSpace CHR '']''" "\<not> isSpace (CHR 0x27)" "\<not> isSpace (CHR 0x22)"
    by (simp_all add: isSpace_def)
  define f1 where "f1 = replaceAll ''!=='' ''!='' (replaceAll ''==='' ''=='' q)"
  define f2 where "f2 = (if countChar CHR ''('' f1 > countChar CHR '')'' f1
     then f1 @ replicate (countChar CHR ''('' f1 - countChar CHR '')'' f1) CHR '')'' else f1)"
  define f3 where "f3 = (if countChar CHR ''['' f2 > countChar CHR '']'' f2
     then f2 @ replicate (countChar CHR ''['' f2 - countChar CHR '']'' f2) CHR '']'' else f2)"
  define f4 where "f4 = (if countChar (CHR 0x27) f3 mod 2 \<noteq> 0 then f3 @ [CHR 0x27] else f3)"
  define f5 where "f5 = (if countChar (CHR 0x22) f4 mod 2 \<noteq> 0 then f4 @ [CHR 0x22] else f4)"
  have "trimmed (replaceAll ''==='' ''=='' q)"
    by (rule trimmed_replaceAll [OF _ _ _ assms]) (simp_all add: sp)
  then have 1: "trimmed f1"
    unfolding f1_def by (rule trimmed_replaceAll [rotated 3]) (simp_all add: sp)
  have 2: "trimmed f2"
    unfolding f2_def using 1 sp by (auto intro: trimmed_append)
  have 3: "trimmed f3"
    unfolding f3_def using 2 sp by (auto intro: trimmed_append)
  have 4: "trimmed f4"
    unfolding f4_def using 3 sp by (auto intro: trimmed_append)
  have 5: "trimmed f5"
    unfolding f5_def using 4 sp by (auto intro: trimmed_append)
  have "fixSyntaxErrors q errs = join [CHR 0x0A] (mapIndex fixLine 0 (splitChar (CHR 0x0A) f5))"
    unfolding fixSyntaxErrors_def Let_def f5_def f4_def f3_def f2_def f1_def by (rule refl)
  with trimmed_fixLines [OF 5] show ?thesis by simp
qed

lemma validateSemantics_Nil: "validateSemantics q sch = []"
  by (simp add: validateSemantics_def)

lemma refineLoop_exit:
  "\<not> n < maxAttempts \<Longrightarrow>
   refineLoop rw s q n errs fxs =
     \<lparr>query = q, isValid = (errs = []), errors = errs, fixes_applied = fxs, attempts = n\<rparr>"
  by (subst refineLoop.simps) simp

lemma refineLoop_accept:
  "n < maxAttempts \<Longrightarrow> validateSyntax q = [] \<Longrightarrow>
   refineLoop rw s q n errs fxs =
     \<lparr>query = q, isValid = True, errors = [], fixes_applied = fxs, attempts = n\<rparr>"
  by (subst refineLoop.simps) (simp add: validateSemantics_Nil split: option.splits)

lemma refineLoop_repair:
  "n < maxAttempts \<Longrightarrow> validateSyntax q \<noteq> [] \<Longrightarrow>
   refineLoop rw s q n errs fxs =
     refineLoop rw s (fixSyntaxErrors q (validateSyntax q)) (n + 1) (errs @ validateSyntax q)
       (fxs @ [''Fixed syntax errors: '' @ join '', '' (validateSyntax q)])"
  by (subst refineLoop.simps) (simp add: Let_def)

text \<open>The induction that follows the loop: the exit, the accepting return and the
  repair step.\<close>

lemma refineLoop_cases [case_names exit accept repair]:
  assumes "\<And>n q errs fxs. \<not> n < maxAttempts \<Longrightarrow> P q n errs fxs"
    and "\<And>n q errs fxs. n < maxAttempts \<Longrightarrow> validateSyntax q = [] \<Longrightarrow> P q n errs fxs"
    and "\<And>n q errs fxs. n < maxAttempts \<Longrightarrow> validateSyntax q \<noteq> [] \<Longrightarrow>
           P (fixSyntaxErrors q (validateSyntax q)) (n + 1) (errs @ validateSyntax q)
             (fxs @ [''Fixed syntax errors: '' @ join '', '' (validateSyntax q)])
           \<Longrightarrow> P q n errs fxs"
  shows "P q n errs fxs"
proof -
  have "maxAttempts - m = k \<Longrightarrow> P t m es fs" for k t m es fs
  proof (induction k arbitrary: t m es fs)
    case 0
    then show ?case using assms(1) by simp
  next
    case (Suc k t m es fs)
    then have lt: "m < maxAttempts" by simp
    show ?case
    proof (cases "validateSyntax t = []")
      case True
      with lt show ?thesis by (rule assms(2))
    next
      case False
      from Suc.prems have "maxAttempts - (m + 1) = k" by simp
      then have "P (fixSyntaxErrors t (validateSyntax t)) (m + 1) (es @ validateSyntax t)
               (fs @ [''Fixed syntax errors: '' @ join '', '' (validateSyntax t)])"
        by (rule Suc.IH)
      with lt False show ?thesis by (rule assms(3))
    qed
  qed
  then show ?thesis by simp
qed

lemma refineLoop_valid:
  "trimmed q \<Longrightarrow> n < maxAttempts \<or> errs \<noteq> [] \<Longrightarrow> isValid (refineLoop rw s q n errs fxs)
   \<Longrightarrow> validateSyntax (query (refineLoop rw s q n errs fxs)) = [] \<and>
       trimmed (query (refineLoop rw s q n errs fxs))"
proof (induction q n errs fxs rule: refineLoop_cases)
  case (exit n q errs fxs)
  then show ?case by (simp add: refineLoop_exit)
next
  case (accept n q errs fxs)
  then show ?case by (simp add: refineLoop_accept)
next
  case (repair n q errs fxs)
  have "trimmed (fixSyntaxErrors q (validateSyntax q))"
    using repair.prems(1) by (rule trimmed_fixSyntaxErrors)
  with repair show ?case by (simp add: refineLoop_repair)
qed

lemma refineLoop_attempts:
  "n \<le> maxAttempts \<Longrightarrow> attempts (refineLoop rw s q n errs fxs) \<le> maxAttempts"
proof (induction q n errs fxs rule: refineLoop_cases)
  case (exit n q errs fxs)
  then show ?case by (simp add: refineLoop_exit)
next
  case (accept n q errs fxs)
  then show ?case by (simp add: refineLoop_accept)
next
  case (repair n q errs fxs)
  then show ?case by (simp add: refineLoop_repair)
qed

text \<open>The two repair scenarios of the specification.\<close>

lemma scenario_missing_parenthesis:
  "refineQuery keepText ''SecurityEvent | where TimeGenerated > ago(1h'' None =
     \<lparr>query = ''SecurityEvent | where TimeGenerated > ago(1h)'', isValid = True, errors = [],
      fixes_applied = [''Fixed syntax errors: Unbalanced parentheses''], attempts = 1\<rparr>"
  by code_simp

lemma scenario_strict_equality:
  \<open>query (refineQuery keepText ''Activity === "Logon"'' None) = ''Activity == "Logon"''\<close>
  by code_simp


text \<open>
  Claim C1. \<open>refineLoop\<close> is a total function, its recursion ending by the measure
  \<open>maxAttempts - n\<close>: \<open>refineQuery\<close> returns for every text and every schema argument.
  The counter of attempts in its result is at most 3.
\<close>

theorem refineQuery_attempts_bounded:
  "attempts (refineQuery rw kql_text schema) \<le> 3"
  using refineLoop_attempts [of 0 rw schema "trim kql_text" "[]" "[]"]
  by (simp add: refineQuery_def maxAttempts_def)

text \<open>Claim C1 at a text of 100 opening parentheses.\<close>

theorem refineQuery_attempts_bounded_witness:
  "attempts (refineQuery keepText (replicate 100 CHR ''('') None) \<le> 3"
  by (rule refineQuery_attempts_bounded)

lemma refineLoop_schema:
  "refineLoop rw s q n errs fxs = refineLoop rw' s' q n errs fxs"
proof (induction q n errs fxs rule: refineLoop_cases)
  case (exit n q errs fxs)
  then show ?case by (simp add: refineLoop_exit)
next
  case (accept n q errs fxs)
  then show ?case by (simp add: refineLoop_accept)
next
  case (repair n q errs fxs)
  then show ?case by (simp add: refineLoop_repair)
qed

text \<open>
  Claim C9. The result of \<open>refineQuery\<close> is the same for any two schema arguments, a
  missing one among them.
\<close>

theorem refineQuery_schema_independent:
  "refineQuery rw kql_text schema1 = refineQuery rw kql_text schema2"
  unfolding refineQuery_def by (rule refineLoop_schema)

text \<open>Claim C9 at a query with a table and a column that the given schema does not have.\<close>

theorem refineQuery_schema_independent_witness:
  "refineQuery keepText ''Foo | where bar == 1'' None =
   refineQuery keepText ''Foo | where bar == 1'' (Some \<lparr>qtables = [''SecurityEvent''], qcolumns = [''Account'']\<rparr>)"
  by (rule refineQuery_schema_independent)

lemma refineLoop_verdict:
  "n \<le> maxAttempts \<Longrightarrow> n = 0 \<or> errs \<noteq> [] \<Longrightarrow>
   (\<not> isValid (refineLoop rw s q n errs fxs) \<longleftrightarrow> attempts (refineLoop rw s q n errs fxs) = maxAttempts) \<and>
   (\<not> isValid (refineLoop rw s q n errs fxs) \<longrightarrow> errors (refineLoop rw s q n errs fxs) \<noteq> []) \<and>
   (isValid (refineLoop rw s q n errs fxs) \<longrightarrow> errors (refineLoop rw s q n errs fxs) = [])"
proof (induction q n errs fxs rule: refineLoop_cases)
  case (exit n q errs fxs)
  then show ?case by (auto simp: refineLoop_exit maxAttempts_def)
next
  case (accept n q errs fxs)
  then show ?case by (simp add: refineLoop_accept)
next
  case (repair n q errs fxs)
  then show ?case by (simp add: refineLoop_repair)
qed

text \<open>
  Claim C10. In the result of \<open>refineQuery\<close>, the query is invalid if and only if the
  counter of attempts is 3; the list of errors is not empty when the query is invalid and
  empty when it is valid.
\<close>

theorem refineQuery_verdict:
  "(\<not> isValid (refineQuery rw kql_text schema) \<longleftrightarrow> attempts (refineQuery rw kql_text schema) = 3) \<and>
   (\<not> isValid (refineQuery rw kql_text schema) \<longrightarrow> errors (refineQuery rw kql_text schema) \<noteq> []) \<and>
   (isValid (refineQuery rw kql_text schema) \<longrightarrow> errors (refineQuery rw kql_text schema) = [])"
  using refineLoop_verdict [of 0 "[]" rw schema "trim kql_text" "[]"]
  by (simp add: refineQuery_def maxAttempts_def)

text \<open>Claim C10 at a text that no repair makes valid and at a text that one repair makes
  valid.\<close>

theorem refineQuery_verdict_witness:
  "\<not> isValid (refineQuery keepText '')'' None) \<and>
   attempts (refineQuery keepText '')'' None) = 3 \<and>
   errors (refineQuery keepText '')'' None) \<noteq> [] \<and>
   isValid (refineQuery keepText ''ago(1h'' None) \<and>
   errors (refineQuery keepText ''ago(1h'' None) = []"
proof -
  have a: "\<not> isValid (refineQuery keepText '')'' None)" by code_simp
  have b: "isValid (refineQuery keepText ''ago(1h'' None)" by code_simp
  from a refineQuery_verdict [of keepText "'')''" None]
  have "attempts (refineQuery keepText '')'' None) = 3 \<and>
        errors (refineQuery keepText '')'' None) \<noteq> []" by blast
  moreover from b refineQuery_verdict [of keepText "''ago(1h''" None]
  have "errors (refineQuery keepText ''ago(1h'' None) = []" by blast
  ultimately show ?thesis using a b by blast
qed

text \<open>
  Claim C7. If \<open>refineQuery\<close> returns a valid result, the structural check finds no
  error in the returned text, and \<open>refineQuery\<close> run on the returned text, with the same
  schema, returns that text, valid, with no attempt.
\<close>

theorem refineQuery_fixed_point:
  assumes "isValid (refineQuery rw kql_text schema)"
  shows "validateSyntax (query (refineQuery rw kql_text schema)) = [] \<and>
         refineQuery rw (query (refineQuery rw kql_text schema)) schema =
           \<lparr>query = query (refineQuery rw kql_text schema), isValid = True, errors = [],
            fixes_applied = [], attempts = 0\<rparr>"
proof -
  define r where "r = refineLoop rw schema (trim kql_text) 0 [] []"
  have r: "refineQuery rw kql_text schema = r" by (simp add: refineQuery_def r_def)
  have "isValid r" using assms by (simp add: r)
  then have "validateSyntax (query r) = [] \<and> trimmed (query r)"
    unfolding r_def by (intro refineLoop_valid) (simp_all add: trimmed_trim maxAttempts_def)
  then have v: "validateSyntax (query r) = []" and t: "trim (query r) = query r"
    by (simp_all add: trim_trimmed)
  have "refineQuery rw (query r) schema = refineLoop rw schema (query r) 0 [] []"
    by (simp add: refineQuery_def t)
  also have "\<dots> = \<lparr>query = query r, isValid = True, errors = [], fixes_applied = [], attempts = 0\<rparr>"
    using v by (simp add: refineLoop_accept maxAttempts_def)
  finally show ?thesis using v by (simp add: r)
qed


text \<open>Claim C7 at the query with the missing parenthesis.\<close>

theorem refineQuery_fixed_point_witness:
  "isValid (refineQuery keepText ''SecurityEvent | where TimeGenerated > ago(1h'' None) \<and>
   validateSyntax
     (query (refineQuery keepText ''SecurityEvent | where TimeGenerated > ago(1h'' None)) = [] \<and>
   refineQuery keepText
     (query (refineQuery keepText ''SecurityEvent | where TimeGenerated > ago(1h'' None)) None =
     \<lparr>query = query (refineQuery keepText ''SecurityEvent | where TimeGenerated > ago(1h'' None),
      isValid = True, errors = [], fixes_applied = [], attempts = 0\<rparr>"
proof -
  have h: "isValid (refineQuery keepText ''SecurityEvent | where TimeGenerated > ago(1h'' None)"
    by code_simp
  from refineQuery_fixed_point [OF h] h show ?thesis by blast
qed

section \<open>Engine: properties\<close>

text \<open>A step of \<open>convert\<close> before the repair throws \<open>e\<close>: the schema reduction throws,
  or it returns and the selection of examples throws, or both return and the generation
  call throws.\<close>

lemma convert_throw:
  assumes "schemaRefiner eng (request_query request) (defaultSchema eng) = Inl e \<or>
     (\<exists>refined. schemaRefiner eng (request_query request) (defaultSchema eng) = Inr refined \<and>
        (fewShotSelector eng (request_query request) (request_database request) 3 = Inl e \<or>
         (\<exists>examples.
            fewShotSelector eng (request_query request) (request_database request) 3
              = Inr examples \<and>
            llmClient eng (request_query request)
              \<lparr>qtables = map tname (rtables refined), qcolumns = map cname (rcolumns refined)\<rparr>
              (map (\<lambda>ex. (nlq ex, kql ex)) examples) = Inl e)))"
  shows "convert eng startTime now request = catchBlock startTime now e"
  using assms by (auto simp: convert_def Let_def)

text \<open>Where the conversion of the thrown value throws, \<open>convert\<close> throws that.\<close>

lemma convert_rethrows:
  assumes "schemaRefiner eng (request_query request) (defaultSchema eng) = Inl e \<or>
     (\<exists>refined. schemaRefiner eng (request_query request) (defaultSchema eng) = Inr refined \<and>
        (fewShotSelector eng (request_query request) (request_database request) 3 = Inl e \<or>
         (\<exists>examples.
            fewShotSelector eng (request_query request) (request_database request) 3
              = Inr examples \<and>
            llmClient eng (request_query request)
              \<lparr>qtables = map tname (rtables refined), qcolumns = map cname (rcolumns refined)\<rparr>
              (map (\<lambda>ex. (nlq ex, kql ex)) examples) = Inl e)))"
    and "thrownMessage e = Inl t"
  shows "convert eng startTime now request = Inl t"
  using assms(2) by (simp add: convert_throw [OF assms(1)] catchBlock_def)




end
